theory Spec2Isabelle
  imports Complex_Main "HOL-Library.Char_ord" "HOL-Library.List_Lexorder"
begin

section \<open>Values crossing the interrupt metadata channel\<close>

datatype json =
    JNull
  | JBool bool
  | JNumber real
  | JString string
  | JArray "json list"
  | JObject "(string \<times> json) list"

text \<open>
  A tool request carries its input as a Go \<open>any\<close>. \<open>getQuestionInput\<close> asks two things
  of such a value: whether its dynamic type is exactly \<open>map[string]any\<close>, and what
  \<open>json.Marshal\<close> writes for it. The values are:
  \<^item> \<open>GNil\<close>: the nil interface, a nil pointer, a nil slice (also a nil \<open>[]byte\<close>), a nil
    map of a type other than \<open>map[string]any\<close>; all are written \<open>null\<close>;
  \<^item> \<open>GBool\<close>, \<open>GNumber\<close> (any finite number), \<open>GString\<close> (a string, as its bytes);
  \<^item> \<open>GBytes\<close>: a non-nil \<open>[]byte\<close>, given by its standard base64 text, which is what
    \<open>json.Marshal\<close> writes for it, as a JSON string;
  \<^item> \<open>GSlice\<close>: a non-nil slice, or an array, that is not a byte slice, by its elements
    (the empty list is the empty, non-nil slice, written \<open>[]\<close>);
  \<^item> \<open>GMapStringAny\<close>: a value of dynamic type \<open>map[string]any\<close>, by its entries (keys are
    distinct; a nil map of this type has no entries, and \<open>getQuestionInput\<close> returns for it
    what it returns for the empty map);
  \<^item> \<open>GObject\<close>: a struct, or a non-nil map of another type, by the names and values of
    the entries \<open>json.Marshal\<close> writes for it;
  \<^item> \<open>GMarshaler\<close>: a value that writes itself (\<open>json.Marshaler\<close>,
    \<open>encoding.TextMarshaler\<close>) and succeeds, by the JSON value read back from what it
    writes;
  \<^item> \<open>GUnsupported\<close>: a value \<open>json.Marshal\<close> rejects (a channel, a function, a complex
    number, NaN or an infinite float, a cycle, a marshaler that fails).
  A non-nil pointer is the value it points to.
\<close>

datatype goval =
    GNil
  | GBool bool
  | GNumber real
  | GString string
  | GBytes string
  | GSlice "goval list"
  | GMapStringAny "(string \<times> goval) list"
  | GObject "(string \<times> goval) list"
  | GMarshaler json
  | GUnsupported

datatype json_error =
    UnsupportedValueError
  | UnmarshalTypeError string

text \<open>The errors \<open>handleResponse\<close> can return: \<open>errors.New\<close> values (also every error
  a collaborator makes up), the two context errors, and the three \<open>fmt.Errorf\<close> values of
  \<open>getQuestionInput\<close>.\<close>

datatype error =
    ErrorsNew string
  | Canceled
  | DeadlineExceeded
  | UnexpectedInputType
  | FailedToMarshal json_error
  | FailedToUnmarshal json_error

text \<open>\<open>QuestionInput\<close> of \<open>ask_question_tool.go\<close>; the nil slice is \<open>[]\<close>.\<close>

record QuestionInput =
  Question :: string
  Choices :: "string list"

subsection \<open>\<open>encoding/json\<close>, at the level of JSON values\<close>

text \<open>
  \<open>json.Marshal\<close> writes a string with every byte that is not part of a valid UTF-8
  encoding replaced by U+FFFD (bytes \<open>0xEF 0xBF 0xBD\<close>). \<open>runeLength\<close> is the number of
  bytes of the valid encoding a string starts with, after the table of \<open>unicode/utf8\<close>,
  or \<open>0\<close> when it starts with none.
\<close>

definition inRange :: "nat \<Rightarrow> nat \<Rightarrow> char \<Rightarrow> bool" where
  "inRange lo hi c = (lo \<le> of_char c \<and> (of_char c :: nat) \<le> hi)"

fun runeLength :: "string \<Rightarrow> nat" where
  "runeLength [] = 0"
| "runeLength (c # cs) =
     (let b = (of_char c :: nat) in
      if b < 0x80 then 1
      else if 0xC2 \<le> b \<and> b \<le> 0xDF then
        (case cs of
           c1 # _ \<Rightarrow> if inRange 0x80 0xBF c1 then 2 else 0
         | _ \<Rightarrow> 0)
      else if 0xE0 \<le> b \<and> b \<le> 0xEF then
        (case cs of
           c1 # c2 # _ \<Rightarrow>
             if inRange (if b = 0xE0 then 0xA0 else 0x80) (if b = 0xED then 0x9F else 0xBF) c1
                \<and> inRange 0x80 0xBF c2
             then 3 else 0
         | _ \<Rightarrow> 0)
      else if 0xF0 \<le> b \<and> b \<le> 0xF4 then
        (case cs of
           c1 # c2 # c3 # _ \<Rightarrow>
             if inRange (if b = 0xF0 then 0x90 else 0x80) (if b = 0xF4 then 0x8F else 0xBF) c1
                \<and> inRange 0x80 0xBF c2 \<and> inRange 0x80 0xBF c3
             then 4 else 0
         | _ \<Rightarrow> 0)
      else 0)"

fun toValidUTF8 :: "string \<Rightarrow> string" where
  "toValidUTF8 [] = []"
| "toValidUTF8 (c # cs) =
     (case runeLength (c # cs) of
        0 \<Rightarrow> [CHR 0xEF, CHR 0xBF, CHR 0xBD] @ toValidUTF8 cs
      | Suc n \<Rightarrow> (c # take n cs) @ toValidUTF8 (drop n cs))"

text \<open>
  \<open>json.Marshal\<close> fails on a value that holds an unsupported value anywhere, and otherwise
  writes the value; a map is written with its keys in ascending byte order (sorted as
  they are, then written as strings are).
\<close>

fun marshalable :: "goval \<Rightarrow> bool" where
  "marshalable GUnsupported = False"
| "marshalable (GSlice vs) = list_all marshalable vs"
| "marshalable (GMapStringAny kvs) = list_all marshalable (map snd kvs)"
| "marshalable (GObject kvs) = list_all marshalable (map snd kvs)"
| "marshalable _ = True"

fun to_json :: "goval \<Rightarrow> json" where
  "to_json GNil = JNull"
| "to_json (GBool b) = JBool b"
| "to_json (GNumber n) = JNumber n"
| "to_json (GString s) = JString (toValidUTF8 s)"
| "to_json (GBytes base64) = JString base64"
| "to_json (GSlice vs) = JArray (map to_json vs)"
| "to_json (GMapStringAny kvs) =
     JObject (map (\<lambda>kj. (toValidUTF8 (fst kj), snd kj))
                (sort_key fst (map (\<lambda>kv. (fst kv, to_json (snd kv))) kvs)))"
| "to_json (GObject kvs) = JObject (map (\<lambda>kv. (toValidUTF8 (fst kv), to_json (snd kv))) kvs)"
| "to_json (GMarshaler j) = j"
| "to_json GUnsupported = JNull"

definition json_Marshal :: "goval \<Rightarrow> json_error + json" where
  "json_Marshal v = (if marshalable v then Inr (to_json v) else Inl UnsupportedValueError)"

text \<open>
  \<open>json.Unmarshal\<close> matches an object key to a struct field by the field's JSON name,
  exactly or else case-insensitively. The folding maps ASCII letters to upper case; the
  only other characters that fold to an ASCII letter are the long s (U+017F, bytes
  \<open>0xC5 0xBF\<close>) and the Kelvin sign (U+212A, bytes \<open>0xE2 0x84 0xAA\<close>).
\<close>

definition toUpperASCII :: "char \<Rightarrow> char" where
  "toUpperASCII c =
     (let n = (of_char c :: nat) in if 97 \<le> n \<and> n \<le> 122 then char_of (n - 32) else c)"

fun foldName :: "string \<Rightarrow> string" where
  "foldName [] = []"
| "foldName [c1] = [toUpperASCII c1]"
| "foldName [c1, c2] =
     (if c1 = CHR 0xC5 \<and> c2 = CHR 0xBF then ''S''
      else toUpperASCII c1 # foldName [c2])"
| "foldName (c1 # c2 # c3 # cs) =
     (if c1 = CHR 0xE2 \<and> c2 = CHR 0x84 \<and> c3 = CHR 0xAA then CHR ''K'' # foldName cs
      else if c1 = CHR 0xC5 \<and> c2 = CHR 0xBF then CHR ''S'' # foldName (c3 # cs)
      else toUpperASCII c1 # foldName (c2 # c3 # cs))"

definition matchesField :: "string \<Rightarrow> string \<Rightarrow> bool" where
  "matchesField key name = (foldName key = foldName name)"

text \<open>
  A JSON string is stored into a string; \<open>null\<close> leaves the target as it is; anything
  else is a type error, which \<open>Unmarshal\<close> remembers (the earliest one) while it goes on.
  An array is stored into \<open>[]string\<close> element by element, a \<open>null\<close> element as the empty
  string.
\<close>

fun isStringOrNull :: "json \<Rightarrow> bool" where
  "isStringOrNull (JString s) = True"
| "isStringOrNull JNull = True"
| "isStringOrNull _ = False"

fun stringOf :: "json \<Rightarrow> string" where
  "stringOf (JString s) = s"
| "stringOf _ = []"

definition firstError :: "json_error option \<Rightarrow> json_error \<Rightarrow> json_error option" where
  "firstError saved e = (case saved of None \<Rightarrow> Some e | Some e0 \<Rightarrow> Some e0)"

fun unmarshalField ::
  "QuestionInput \<times> json_error option \<Rightarrow> string \<times> json \<Rightarrow> QuestionInput \<times> json_error option"
where
  "unmarshalField (q, saved) (key, v) =
     (if matchesField key ''question'' then
        (case v of
           JNull \<Rightarrow> (q, saved)
         | JString s \<Rightarrow> (q\<lparr>Question := s\<rparr>, saved)
         | _ \<Rightarrow> (q, firstError saved (UnmarshalTypeError ''question'')))
      else if matchesField key ''choices'' then
        (case v of
           JNull \<Rightarrow> (q, saved)
         | JArray xs \<Rightarrow>
             (q\<lparr>Choices := map stringOf xs\<rparr>,
              if list_all isStringOrNull xs then saved
              else firstError saved (UnmarshalTypeError ''choices''))
         | _ \<Rightarrow> (q, firstError saved (UnmarshalTypeError ''choices'')))
      else (q, saved))"

definition json_Unmarshal :: "json \<Rightarrow> json_error + QuestionInput" where
  "json_Unmarshal j =
     (case j of
        JNull \<Rightarrow> Inr \<lparr>Question = [], Choices = []\<rparr>
      | JObject kvs \<Rightarrow>
          (case foldl unmarshalField (\<lparr>Question = [], Choices = []\<rparr>, None) kvs of
             (q, None) \<Rightarrow> Inr q
           | (q, Some e) \<Rightarrow> Inl e)
      | _ \<Rightarrow> Inl (UnmarshalTypeError ''QuestionInput''))"

subsection \<open>\<open>getQuestionInput\<close> (interruption_handler.go)\<close>

definition getQuestionInput :: "goval \<Rightarrow> error + QuestionInput" where
  "getQuestionInput input =
     (case input of
        GMapStringAny rawInput \<Rightarrow>
          (case json_Marshal (GMapStringAny rawInput) of
             Inl err \<Rightarrow> Inl (FailedToMarshal err)
           | Inr jsonBytes \<Rightarrow>
               (case json_Unmarshal jsonBytes of
                  Inl err \<Rightarrow> Inl (FailedToUnmarshal err)
                | Inr questionInput \<Rightarrow> Inr questionInput))
      | _ \<Rightarrow> Inl UnexpectedInputType)"

subsection \<open>Payloads that decode\<close>








section \<open>Collaborators and the record of their calls\<close>

text \<open>
  The \<open>genkit\<close> library is outside the repository. A model response is taken by what the
  handlers read from it: its \<open>FinishReason\<close> and the results of its accessors
  \<open>Interrupts()\<close>, \<open>History()\<close> and \<open>Text()\<close>. An interrupt part is a tool request
  (\<open>part.ToolRequest.Name\<close>, \<open>part.ToolRequest.Input\<close>). What a tool's
  \<open>Respond(part, output, nil)\<close> builds is kept as the call itself.
\<close>

datatype message = Message string string

datatype tool = Tool string

record part =
  Name :: string
  Input :: goval

datatype toolResponse = Respond tool part string

text \<open>\<open>ai.WithPrompt(text, args...)\<close> is variadic; the only extra argument this program ever
  passes is an error value (\<open>None\<close> is Go's nil).\<close>

datatype generateOption =
    WithMessages "message list"
  | WithTools "tool list"
  | WithToolResponses "toolResponse list"
  | WithPrompt string "error option list"

record ModelResponse =
  FinishReason :: string
  Interrupts :: "part list"
  History :: "message list"
  Text :: string

text \<open>
  Every call of a collaborator that the handlers make is appended to a trace, with what it
  returned. The collaborators are interface values with state of their own: each answers
  as a function of the calls made so far. \<open>UserInteraction\<close> returns Go's pair
  \<open>(string, error)\<close>. The context is read by \<open>ctx.Err()\<close>, which is non-nil exactly when
  \<open>ctx.Done()\<close> is closed; what it reads is likewise a function of the calls made so far.
  Reading the context and looking a tool up are not recorded.
\<close>

datatype event =
    EvGenerate "generateOption list" "error + ModelResponse"
  | EvGenerateBool string "message list" "error + bool"
  | EvUserInteraction QuestionInput string "error option"

type_synonym trace = "event list"

type_synonym Context = "trace \<Rightarrow> error option"

record Generator =
  Generate :: "generateOption list \<Rightarrow> trace \<Rightarrow> error + ModelResponse"
  LookupTool :: "string \<Rightarrow> trace \<Rightarrow> tool option"
  GenerateBool :: "string \<Rightarrow> message list \<Rightarrow> trace \<Rightarrow> error + bool"

record InterruptionHandler =
  ih_generator :: Generator
  UserInteraction :: "QuestionInput \<Rightarrow> trace \<Rightarrow> string \<times> error option"

record ConversationLoopHandler =
  cv_generator :: Generator
  validationPrompt :: string
  interruptionHandler :: InterruptionHandler

section \<open>The Resolution Loop (interruption_handler.go)\<close>

text \<open>The inner loop \<open>for _, part := range response.Interrupts()\<close>, with its accumulator
  \<open>answers\<close>.\<close>

fun handleInterrupts ::
  "Context \<Rightarrow> InterruptionHandler \<Rightarrow> tool \<Rightarrow> part list \<Rightarrow> toolResponse list \<Rightarrow> trace
     \<Rightarrow> (error + toolResponse list) \<times> trace"
where
  "handleInterrupts ctx ih askQuestion [] answers t = (Inr answers, t)"
| "handleInterrupts ctx ih askQuestion (part # parts) answers t =
     (case ctx t of
        Some cancelled \<Rightarrow> (Inl cancelled, t)
      | None \<Rightarrow>
          (case getQuestionInput (Input part) of
             Inl err \<Rightarrow> (Inl err, t)
           | Inr questionInput \<Rightarrow>
               (case UserInteraction ih questionInput t of
                  (answer, err) \<Rightarrow>
                    (case err of
                       Some e \<Rightarrow> (Inl e, t @ [EvUserInteraction questionInput answer err])
                     | None \<Rightarrow>
                         handleInterrupts ctx ih askQuestion parts
                           (answers @ [Respond askQuestion part answer])
                           (t @ [EvUserInteraction questionInput answer err])))))"

text \<open>The outer loop \<open>for response.FinishReason == "interrupted"\<close>. It has no bound: a
  generator that suspends forever keeps it running, which is the value \<open>None\<close>.\<close>

partial_function (option) resolutionLoop ::
  "Context \<Rightarrow> InterruptionHandler \<Rightarrow> tool \<Rightarrow> ModelResponse \<Rightarrow> trace
     \<Rightarrow> ((error + ModelResponse) \<times> trace) option"
where
  "resolutionLoop ctx ih askQuestion response t =
     (if FinishReason response = ''interrupted'' then
        (case ctx t of
           Some cancelled \<Rightarrow> Some (Inl cancelled, t)
         | None \<Rightarrow>
             (case handleInterrupts ctx ih askQuestion (Interrupts response) [] t of
                (Inl err, t1) \<Rightarrow> Some (Inl err, t1)
              | (Inr answers, t1) \<Rightarrow>
                  (let opts = [WithMessages (History response), WithTools [askQuestion],
                               WithToolResponses answers];
                       result = Generate (ih_generator ih) opts t1;
                       t2 = t1 @ [EvGenerate opts result]
                   in case result of
                        Inl err \<Rightarrow> Some (Inl err, t2)
                      | Inr response' \<Rightarrow> resolutionLoop ctx ih askQuestion response' t2)))
      else Some (Inr response, t))"

definition InterruptionHandler_handleResponse ::
  "Context \<Rightarrow> InterruptionHandler \<Rightarrow> ModelResponse \<Rightarrow> trace
     \<Rightarrow> ((error + ModelResponse) \<times> trace) option"
where
  "InterruptionHandler_handleResponse ctx ih response t =
     (case LookupTool (ih_generator ih) ''askQuestion'' t of
        None \<Rightarrow> Some (Inl (ErrorsNew ''askQuestion tool not found''), t)
      | Some askQuestion \<Rightarrow> resolutionLoop ctx ih askQuestion response t)"

section \<open>The Completion Loop (conversation_loop_handler.go)\<close>

text \<open>
  The loop \<open>for hasMoreQuestions\<close>. In its last statement Go evaluates the arguments of
  \<open>Generate\<close> from left to right, so \<open>UserInteraction\<close> is called before \<open>Generate\<close>, and
  both of its results are handed to the variadic \<open>ai.WithPrompt\<close>: the answer as the prompt
  text, the error as its one extra argument.
\<close>

partial_function (option) completionLoop ::
  "Context \<Rightarrow> ConversationLoopHandler \<Rightarrow> tool \<Rightarrow> ModelResponse \<Rightarrow> trace
     \<Rightarrow> ((error + ModelResponse) \<times> trace) option"
where
  "completionLoop ctx cv askQuestion response t =
     (case InterruptionHandler_handleResponse ctx (interruptionHandler cv) response t of
        None \<Rightarrow> None
      | Some (Inl err, t1) \<Rightarrow> Some (Inl err, t1)
      | Some (Inr response1, t1) \<Rightarrow>
          (let verdict = GenerateBool (cv_generator cv) (validationPrompt cv) (History response1) t1;
               t2 = t1 @ [EvGenerateBool (validationPrompt cv) (History response1) verdict]
           in case verdict of
                Inl err \<Rightarrow> Some (Inl err, t2)
              | Inr isConversationFinished \<Rightarrow>
                  if \<not> isConversationFinished then
                    (case UserInteraction (interruptionHandler cv)
                            \<lparr>Question = Text response1, Choices = []\<rparr> t2 of
                       (answer, err) \<Rightarrow>
                         (let t3 = t2 @ [EvUserInteraction
                                           \<lparr>Question = Text response1, Choices = []\<rparr> answer err];
                              opts = [WithMessages (History response1), WithTools [askQuestion],
                                      WithPrompt answer [err]];
                              result = Generate (cv_generator cv) opts t3;
                              t4 = t3 @ [EvGenerate opts result]
                          in case result of
                               Inl err \<Rightarrow> Some (Inl err, t4)
                             | Inr response2 \<Rightarrow> completionLoop ctx cv askQuestion response2 t4))
                  else Some (Inr response1, t2)))"

definition ConversationLoopHandler_handleResponse ::
  "Context \<Rightarrow> ConversationLoopHandler \<Rightarrow> ModelResponse \<Rightarrow> trace
     \<Rightarrow> ((error + ModelResponse) \<times> trace) option"
where
  "ConversationLoopHandler_handleResponse ctx cv response t =
     (case LookupTool (cv_generator cv) ''askQuestion'' t of
        None \<Rightarrow> Some (Inl (ErrorsNew ''askQuestion tool not found''), t)
      | Some askQuestion \<Rightarrow> completionLoop ctx cv askQuestion response t)"

section \<open>Reading a trace\<close>

fun isGenerate :: "event \<Rightarrow> bool" where
  "isGenerate (EvGenerate opts result) = True"
| "isGenerate _ = False"

fun isGenerateBool :: "event \<Rightarrow> bool" where
  "isGenerateBool (EvGenerateBool prompt history verdict) = True"
| "isGenerateBool _ = False"

fun isUserInteraction :: "event \<Rightarrow> bool" where
  "isUserInteraction (EvUserInteraction q answer err) = True"
| "isUserInteraction _ = False"






section \<open>Scenarios of the test suite\<close>

text \<open>
  After \<open>MockGenerator\<close> of \<open>run_agent_test.go\<close>: the scripted responses are handed out in
  order, one per generation call made so far, then the error
  \<open>no more mock responses available\<close>; the scripted verdicts likewise, then \<open>true\<close>;
  tools are looked up in a fixed table. The mock keeps the messages of the responses it
  has handed out and makes them the request messages of the next one: the history of the
  response of a call is the messages of the scripted responses up to it. (The scripted
  responses are made with no request messages, so the history of each is its own message.)
\<close>

definition MockGenerator ::
  "ModelResponse list \<Rightarrow> (string \<times> tool) list \<Rightarrow> bool list \<Rightarrow> Generator"
where
  "MockGenerator responses tools boolResponses =
     \<lparr>Generate = (\<lambda>opts t.
         let callIndex = length (filter isGenerate t)
         in if callIndex \<ge> length responses
            then Inl (ErrorsNew ''no more mock responses available'')
            else Inr ((responses ! callIndex)
                        \<lparr>History := concat (map History (take (Suc callIndex) responses))\<rparr>)),
      LookupTool = (\<lambda>name t. map_of tools name),
      GenerateBool = (\<lambda>prompt history t.
         let boolCallIndex = length (filter isGenerateBool t)
         in if boolCallIndex \<ge> length boolResponses then Inr True
            else Inr (boolResponses ! boolCallIndex))\<rparr>"

definition createToolRequestPart :: "string \<Rightarrow> string \<Rightarrow> string list \<Rightarrow> part" where
  "createToolRequestPart name question choices =
     \<lparr>Name = name,
      Input = GMapStringAny [(''question'', GString question),
                             (''choices'', GSlice (map GString choices))]\<rparr>"

definition createTextResponse :: "string \<Rightarrow> string \<Rightarrow> ModelResponse" where
  "createTextResponse text finishReason =
     \<lparr>FinishReason = finishReason, Interrupts = [],
      History = [Message ''model'' text], Text = text\<rparr>"

definition createInterruptedResponse :: "part list \<Rightarrow> ModelResponse" where
  "createInterruptedResponse toolRequests =
     \<lparr>FinishReason = ''interrupted'', Interrupts = toolRequests,
      History = [Message ''model'' []], Text = []\<rparr>"

definition background :: Context where
  "background t = None"

definition cancelledContext :: Context where
  "cancelledContext t = Some Canceled"

text \<open>A context that is cancelled while the first question is being answered.\<close>

definition cancelledDuringFirstAnswer :: Context where
  "cancelledDuringFirstAnswer t = (if list_ex isUserInteraction t then Some Canceled else None)"

definition askQuestionTools :: "(string \<times> tool) list" where
  "askQuestionTools = [(''askQuestion'', Tool ''askQuestion'')]"

definition mockUserInteraction :: "string \<Rightarrow> QuestionInput \<Rightarrow> trace \<Rightarrow> string \<times> error option" where
  "mockUserInteraction answer q t = (answer, None)"

text \<open>What \<open>TerminalReader.Interactor\<close> returns when its 30 seconds run out.\<close>

definition timedOutInteraction :: "QuestionInput \<Rightarrow> trace \<Rightarrow> string \<times> error option" where
  "timedOutInteraction q t = ([], Some (ErrorsNew ''Response was not provided in time''))"

definition handlerWithoutTool :: InterruptionHandler where
  "handlerWithoutTool =
     \<lparr>ih_generator = MockGenerator [] [] [], UserInteraction = mockUserInteraction ''Boy''\<rparr>"

definition loopWithoutTool :: ConversationLoopHandler where
  "loopWithoutTool =
     \<lparr>cv_generator = MockGenerator [] [] [], validationPrompt = ''Is finished?'',
      interruptionHandler = handlerWithoutTool\<rparr>"

definition genderQuestion :: part where
  "genderQuestion = createToolRequestPart ''askQuestion'' ''What gender are the children?'' [''Boy'', ''Girl'', ''Both'']"

definition agesQuestion :: part where
  "agesQuestion = createToolRequestPart ''askQuestion'' ''What are their ages?'' [''5-7'', ''8-10'', ''11-13'', ''14+'']"

definition malformedRequest :: part where
  "malformedRequest = \<lparr>Name = ''askQuestion'', Input = GString ''not a map''\<rparr>"

definition recommendation :: ModelResponse where
  "recommendation = createTextResponse ''Based on your answer, I recommend LEGO sets and science kits.'' ''stop''"

definition simpleFlowHandler :: InterruptionHandler where
  "simpleFlowHandler =
     \<lparr>ih_generator = MockGenerator [recommendation] askQuestionTools [],
      UserInteraction = mockUserInteraction ''Boy''\<rparr>"

definition simpleFlowResponse :: ModelResponse where
  "simpleFlowResponse = createInterruptedResponse [genderQuestion]"

definition twoQuestionsHandler :: InterruptionHandler where
  "twoQuestionsHandler =
     \<lparr>ih_generator = MockGenerator [recommendation] askQuestionTools [],
      UserInteraction = mockUserInteraction ''Boy and Girl''\<rparr>"

definition twoQuestionsResponse :: ModelResponse where
  "twoQuestionsResponse = createInterruptedResponse [genderQuestion, agesQuestion]"

definition malformedSecondResponse :: ModelResponse where
  "malformedSecondResponse = createInterruptedResponse [genderQuestion, malformedRequest]"

definition simpleResponse :: ModelResponse where
  "simpleResponse = createTextResponse ''Hello'' ''stop''"

definition finalAnswer :: ModelResponse where
  "finalAnswer = createTextResponse ''Final Answer'' ''stop''"

definition loopOnceHandler ::
  "(QuestionInput \<Rightarrow> trace \<Rightarrow> string \<times> error option) \<Rightarrow> ConversationLoopHandler"
where
  "loopOnceHandler userInteraction =
     \<lparr>cv_generator = MockGenerator [finalAnswer] askQuestionTools [False, True],
      validationPrompt = ''Is finished?'',
      interruptionHandler =
        \<lparr>ih_generator = MockGenerator [finalAnswer] askQuestionTools [False, True],
         UserInteraction = userInteraction\<rparr>\<rparr>"

definition timedOutHandler :: InterruptionHandler where
  "timedOutHandler =
     \<lparr>ih_generator = MockGenerator [recommendation] askQuestionTools [],
      UserInteraction = timedOutInteraction\<rparr>"

definition malformedOnlyResponse :: ModelResponse where
  "malformedOnlyResponse = createInterruptedResponse [malformedRequest]"

section \<open>Properties\<close>

lemma resolutionLoop_finished:
  "FinishReason r \<noteq> ''interrupted'' \<Longrightarrow>
     resolutionLoop ctx ih askQuestion r t = Some (Inr r, t)"
  by (subst resolutionLoop.simps) simp

subsection \<open>Absent capability\<close>

text \<open>
  Claim C6. When \<open>LookupTool("askQuestion")\<close> returns nil, the Resolution Loop and the
  Completion Loop both return the error \<open>askQuestion tool not found\<close> at once: the trace
  is the one they started with, so no generation call and no Interaction call was made.
  The Completion Loop also fails so when only the generator of its inner handler lacks
  the capability.
\<close>

theorem askQuestion_absent_fails_at_once:
  "(LookupTool (ih_generator ih) ''askQuestion'' t = None \<longrightarrow>
      InterruptionHandler_handleResponse ctx ih r t
        = Some (Inl (ErrorsNew ''askQuestion tool not found''), t))
   \<and> (LookupTool (cv_generator cv) ''askQuestion'' t = None \<longrightarrow>
      ConversationLoopHandler_handleResponse ctx cv r t
        = Some (Inl (ErrorsNew ''askQuestion tool not found''), t))
   \<and> (LookupTool (ih_generator (interruptionHandler cv)) ''askQuestion'' t = None \<longrightarrow>
      ConversationLoopHandler_handleResponse ctx cv r t
        = Some (Inl (ErrorsNew ''askQuestion tool not found''), t))"
proof (intro conjI impI)
  assume "LookupTool (ih_generator ih) ''askQuestion'' t = None"
  then show "InterruptionHandler_handleResponse ctx ih r t
               = Some (Inl (ErrorsNew ''askQuestion tool not found''), t)"
    by (simp add: InterruptionHandler_handleResponse_def)
next
  assume "LookupTool (cv_generator cv) ''askQuestion'' t = None"
  then show "ConversationLoopHandler_handleResponse ctx cv r t
               = Some (Inl (ErrorsNew ''askQuestion tool not found''), t)"
    by (simp add: ConversationLoopHandler_handleResponse_def)
next
  assume inner: "LookupTool (ih_generator (interruptionHandler cv)) ''askQuestion'' t = None"
  show "ConversationLoopHandler_handleResponse ctx cv r t
          = Some (Inl (ErrorsNew ''askQuestion tool not found''), t)"
  proof (cases "LookupTool (cv_generator cv) ''askQuestion'' t")
    case None
    then show ?thesis by (simp add: ConversationLoopHandler_handleResponse_def)
  next
    case (Some askQuestion)
    have "completionLoop ctx cv askQuestion r t
            = Some (Inl (ErrorsNew ''askQuestion tool not found''), t)"
      by (subst completionLoop.simps) (simp add: InterruptionHandler_handleResponse_def inner)
    with Some show ?thesis by (simp add: ConversationLoopHandler_handleResponse_def)
  qed
qed

theorem askQuestion_absent_fails_at_once_witness:
  "LookupTool (ih_generator handlerWithoutTool) ''askQuestion'' [] = None
   \<and> LookupTool (cv_generator loopWithoutTool) ''askQuestion'' [] = None
   \<and> InterruptionHandler_handleResponse background handlerWithoutTool
         (createInterruptedResponse [createToolRequestPart ''askQuestion'' ''What gender?'' [''Boy'', ''Girl'']]) []
       = Some (Inl (ErrorsNew ''askQuestion tool not found''), [])
   \<and> ConversationLoopHandler_handleResponse background loopWithoutTool
         (createInterruptedResponse [createToolRequestPart ''askQuestion'' ''What gender?'' [''Boy'', ''Girl'']]) []
       = Some (Inl (ErrorsNew ''askQuestion tool not found''), [])"
proof -
  have a: "LookupTool (ih_generator handlerWithoutTool) ''askQuestion'' [] = None"
    by (simp add: handlerWithoutTool_def MockGenerator_def)
  have b: "LookupTool (cv_generator loopWithoutTool) ''askQuestion'' [] = None"
    by (simp add: loopWithoutTool_def MockGenerator_def)
  from a b askQuestion_absent_fails_at_once
         [of handlerWithoutTool "[]" background
             "createInterruptedResponse [createToolRequestPart ''askQuestion'' ''What gender?'' [''Boy'', ''Girl'']]"
             loopWithoutTool]
  show ?thesis by simp
qed

subsection \<open>One round of the Resolution Loop\<close>

text \<open>The inner loop over a list of requests is the loop over its front part followed by the
  loop over the rest, started from the answers and the trace the front part left.\<close>

lemma handleInterrupts_append:
  "handleInterrupts ctx ih askQuestion (ps1 @ ps2) answers t =
     (case handleInterrupts ctx ih askQuestion ps1 answers t of
        (Inl err, t1) \<Rightarrow> (Inl err, t1)
      | (Inr answers1, t1) \<Rightarrow> handleInterrupts ctx ih askQuestion ps2 answers1 t1)"
  by (induction ps1 arbitrary: answers t) (auto split: option.splits sum.splits prod.splits)

text \<open>When the inner loop succeeds, every request was decoded and asked, in order, each
  call of \<open>UserInteraction\<close> returned without error, nothing else was called, and the
  answers are the tool responses to the requests, in order.\<close>

lemma handleInterrupts_Inr:
  "handleInterrupts ctx ih askQuestion ps answers t = (Inr answers', t') \<Longrightarrow>
   \<exists>qs as. length qs = length ps \<and> length as = length ps
     \<and> map (\<lambda>p. getQuestionInput (Input p)) ps = map Inr qs
     \<and> (\<forall>i<length ps.
           UserInteraction ih (qs ! i) (t @ take i (map2 (\<lambda>q a. EvUserInteraction q a None) qs as))
             = (as ! i, None))
     \<and> t' = t @ map2 (\<lambda>q a. EvUserInteraction q a None) qs as
     \<and> answers' = answers @ map2 (Respond askQuestion) ps as"
proof (induction ps arbitrary: answers t)
  case Nil
  then show ?case by simp
next
  case (Cons p ps)
  from Cons.prems obtain q a where
    q: "getQuestionInput (Input p) = Inr q" and
    a: "UserInteraction ih q t = (a, None)" and
    rest: "handleInterrupts ctx ih askQuestion ps (answers @ [Respond askQuestion p a])
             (t @ [EvUserInteraction q a None]) = (Inr answers', t')"
    by (auto split: option.splits sum.splits prod.splits)
  from Cons.IH [OF rest] obtain qs as where
    len: "length qs = length ps" "length as = length ps" and
    dec: "map (\<lambda>p. getQuestionInput (Input p)) ps = map Inr qs" and
    ui: "\<forall>i<length ps.
           UserInteraction ih (qs ! i)
             ((t @ [EvUserInteraction q a None]) @ take i (map2 (\<lambda>q a. EvUserInteraction q a None) qs as))
             = (as ! i, None)" and
    tr: "t' = (t @ [EvUserInteraction q a None]) @ map2 (\<lambda>q a. EvUserInteraction q a None) qs as" and
    ans: "answers' = (answers @ [Respond askQuestion p a]) @ map2 (Respond askQuestion) ps as"
    by blast
  have "\<forall>i<length (p # ps).
           UserInteraction ih ((q # qs) ! i)
             (t @ take i (map2 (\<lambda>q a. EvUserInteraction q a None) (q # qs) (a # as)))
             = ((a # as) ! i, None)"
  proof (intro allI impI)
    fix i assume "i < length (p # ps)"
    then show "UserInteraction ih ((q # qs) ! i)
             (t @ take i (map2 (\<lambda>q a. EvUserInteraction q a None) (q # qs) (a # as)))
             = ((a # as) ! i, None)"
      using a ui by (cases i) auto
  qed
  with len dec tr ans q show ?case
    by (intro exI [of _ "q # qs"] exI [of _ "a # as"]) simp
qed

text \<open>When the inner loop fails, it has only asked questions, and at most as many as it had
  requests.\<close>

lemma handleInterrupts_Inl:
  "handleInterrupts ctx ih askQuestion ps answers t = (Inl err, t') \<Longrightarrow>
   \<exists>evs. t' = t @ evs \<and> list_all isUserInteraction evs \<and> length evs \<le> length ps"
proof (induction ps arbitrary: answers t)
  case Nil
  then show ?case by simp
next
  case (Cons p ps)
  show ?case
  proof (cases "ctx t")
    case (Some c)
    with Cons.prems show ?thesis by simp
  next
    case None
    show ?thesis
    proof (cases "getQuestionInput (Input p)")
      case (Inl e)
      with None Cons.prems show ?thesis by simp
    next
      case (Inr q)
      obtain a e where ui: "UserInteraction ih q t = (a, e)" by (cases "UserInteraction ih q t")
      show ?thesis
      proof (cases e)
        case (Some e')
        with None Inr ui Cons.prems have "t' = t @ [EvUserInteraction q a e]" by auto
        then show ?thesis by simp
      next
        case None2: None
        with None Inr ui Cons.prems have
          "handleInterrupts ctx ih askQuestion ps (answers @ [Respond askQuestion p a])
             (t @ [EvUserInteraction q a None]) = (Inl err, t')" by simp
        from Cons.IH [OF this] obtain evs where
          "t' = (t @ [EvUserInteraction q a None]) @ evs" "list_all isUserInteraction evs"
          "length evs \<le> length ps" by blast
        then show ?thesis
          by (intro exI [of _ "EvUserInteraction q a None # evs"]) simp
      qed
    qed
  qed
qed

lemma genderQuestion_input:
  "getQuestionInput (Input genderQuestion)
     = Inr \<lparr>Question = ''What gender are the children?'', Choices = [''Boy'', ''Girl'', ''Both'']\<rparr>"
  by (simp add: genderQuestion_def createToolRequestPart_def getQuestionInput_def json_Marshal_def
        json_Unmarshal_def matchesField_def toUpperASCII_def)

lemma simpleFlow_run:
  "InterruptionHandler_handleResponse background simpleFlowHandler
      (createInterruptedResponse [genderQuestion]) []
   = Some (Inr recommendation,
       [EvUserInteraction \<lparr>Question = ''What gender are the children?'', Choices = [''Boy'', ''Girl'', ''Both'']\<rparr>
          ''Boy'' None,
        EvGenerate [WithMessages [Message ''model'' []], WithTools [Tool ''askQuestion''],
                    WithToolResponses [Respond (Tool ''askQuestion'') genderQuestion ''Boy'']]
          (Inr recommendation)])"
  apply (simp add: InterruptionHandler_handleResponse_def simpleFlowHandler_def MockGenerator_def askQuestionTools_def)
  apply (subst resolutionLoop.simps)
  apply (simp add: createInterruptedResponse_def background_def genderQuestion_input mockUserInteraction_def)
  apply (subst resolutionLoop.simps)
  apply (simp add: recommendation_def createTextResponse_def)
  done

lemma twoQuestionsHandler_tool:
  "LookupTool (ih_generator twoQuestionsHandler) ''askQuestion'' [] = Some (Tool ''askQuestion'')"
  by (simp add: twoQuestionsHandler_def MockGenerator_def askQuestionTools_def)

lemma first_question_answered:
  "ctx [] = None \<Longrightarrow>
   handleInterrupts ctx twoQuestionsHandler (Tool ''askQuestion'') [genderQuestion] [] []
     = (Inr [Respond (Tool ''askQuestion'') genderQuestion ''Boy and Girl''],
        [EvUserInteraction
           \<lparr>Question = ''What gender are the children?'', Choices = [''Boy'', ''Girl'', ''Both'']\<rparr>
           ''Boy and Girl'' None])"
  by (simp add: genderQuestion_input twoQuestionsHandler_def mockUserInteraction_def)

text \<open>A suspended response is never resumed with a partial set of answers: the handler
  either returns an error, having made at most \<open>N\<close> Interaction calls and no generation
  call, or makes all \<open>N\<close> Interaction calls and then the one resumption call.\<close>

lemma resolution_round_no_partial_resumption:
  assumes "FinishReason r = ''interrupted''"
  shows
   "(\<exists>err evs. InterruptionHandler_handleResponse ctx ih r t = Some (Inl err, t @ evs)
        \<and> list_all isUserInteraction evs \<and> length evs \<le> length (Interrupts r))
    \<or> (\<exists>askQuestion qs as.
         LookupTool (ih_generator ih) ''askQuestion'' t = Some askQuestion
       \<and> length qs = length (Interrupts r) \<and> length as = length (Interrupts r)
       \<and> map (\<lambda>p. getQuestionInput (Input p)) (Interrupts r) = map Inr qs
       \<and> (\<forall>i<length (Interrupts r).
             UserInteraction ih (qs ! i)
               (t @ take i (map2 (\<lambda>q a. EvUserInteraction q a None) qs as)) = (as ! i, None))
       \<and> InterruptionHandler_handleResponse ctx ih r t =
           (let t1 = t @ map2 (\<lambda>q a. EvUserInteraction q a None) qs as;
                opts = [WithMessages (History r), WithTools [askQuestion],
                        WithToolResponses (map2 (Respond askQuestion) (Interrupts r) as)];
                result = Generate (ih_generator ih) opts t1;
                t2 = t1 @ [EvGenerate opts result]
            in case result of
                 Inl err \<Rightarrow> Some (Inl err, t2)
               | Inr r' \<Rightarrow> resolutionLoop ctx ih askQuestion r' t2))"
proof (cases "LookupTool (ih_generator ih) ''askQuestion'' t")
  case None
  then have "InterruptionHandler_handleResponse ctx ih r t
               = Some (Inl (ErrorsNew ''askQuestion tool not found''), t @ [])"
    by (simp add: InterruptionHandler_handleResponse_def)
  then show ?thesis
    by (intro disjI1 exI [of _ "ErrorsNew ''askQuestion tool not found''"] exI [of _ "[]"]) simp
next
  case (Some askQuestion)
  then have hr: "InterruptionHandler_handleResponse ctx ih r t = resolutionLoop ctx ih askQuestion r t"
    by (simp add: InterruptionHandler_handleResponse_def)
  show ?thesis
  proof (cases "ctx t")
    case (Some cancelled)
    with assms have "resolutionLoop ctx ih askQuestion r t = Some (Inl cancelled, t @ [])"
      by (subst resolutionLoop.simps) simp
    with hr show ?thesis
      by (intro disjI1 exI [of _ cancelled] exI [of _ "[]"]) simp
  next
    case None
    obtain res t1 where hi: "handleInterrupts ctx ih askQuestion (Interrupts r) [] t = (res, t1)"
      by (cases "handleInterrupts ctx ih askQuestion (Interrupts r) [] t")
    show ?thesis
    proof (cases res)
      case (Inl err)
      with hi handleInterrupts_Inl obtain evs where
        evs: "t1 = t @ evs" "list_all isUserInteraction evs" "length evs \<le> length (Interrupts r)"
        by blast
      from assms None hi Inl have "resolutionLoop ctx ih askQuestion r t = Some (Inl err, t1)"
        by (subst resolutionLoop.simps) simp
      with hr evs show ?thesis by (intro disjI1 exI [of _ err] exI [of _ evs]) simp
    next
      case (Inr answers)
      with hi handleInterrupts_Inr [of ctx ih askQuestion "Interrupts r" "[]" t answers t1]
      obtain qs as where
        len: "length qs = length (Interrupts r)" "length as = length (Interrupts r)" and
        dec: "map (\<lambda>p. getQuestionInput (Input p)) (Interrupts r) = map Inr qs" and
        ui: "\<forall>i<length (Interrupts r).
               UserInteraction ih (qs ! i)
                 (t @ take i (map2 (\<lambda>q a. EvUserInteraction q a None) qs as)) = (as ! i, None)" and
        tr: "t1 = t @ map2 (\<lambda>q a. EvUserInteraction q a None) qs as" and
        ans: "answers = map2 (Respond askQuestion) (Interrupts r) as"
        by auto
      from hi Inr tr ans have hi':
        "handleInterrupts ctx ih askQuestion (Interrupts r) [] t
           = (Inr (map2 (Respond askQuestion) (Interrupts r) as),
              t @ map2 (\<lambda>q a. EvUserInteraction q a None) qs as)"
        by simp
      have
        "resolutionLoop ctx ih askQuestion r t =
           (let t1 = t @ map2 (\<lambda>q a. EvUserInteraction q a None) qs as;
                opts = [WithMessages (History r), WithTools [askQuestion],
                        WithToolResponses (map2 (Respond askQuestion) (Interrupts r) as)];
                result = Generate (ih_generator ih) opts t1;
                t2 = t1 @ [EvGenerate opts result]
            in case result of
                 Inl err \<Rightarrow> Some (Inl err, t2)
               | Inr r' \<Rightarrow> resolutionLoop ctx ih askQuestion r' t2)"
        by (subst resolutionLoop.simps) (simp add: assms None hi' Let_def)
      then have
        "InterruptionHandler_handleResponse ctx ih r t =
           (let t1 = t @ map2 (\<lambda>q a. EvUserInteraction q a None) qs as;
                opts = [WithMessages (History r), WithTools [askQuestion],
                        WithToolResponses (map2 (Respond askQuestion) (Interrupts r) as)];
                result = Generate (ih_generator ih) opts t1;
                t2 = t1 @ [EvGenerate opts result]
            in case result of
                 Inl err \<Rightarrow> Some (Inl err, t2)
               | Inr r' \<Rightarrow> resolutionLoop ctx ih askQuestion r' t2)"
        by (simp only: hr)
      with Some len dec ui show ?thesis
        by (intro disjI2 exI [of _ askQuestion] exI [of _ qs] exI [of _ as]) simp
    qed
  qed
qed

text \<open>The inner loop runs to its end when every payload decodes, and the context is not
  cancelled before, and \<open>UserInteraction\<close> returns without error at, each request.\<close>

lemma handleInterrupts_succeeds:
  assumes "map (\<lambda>p. getQuestionInput (Input p)) ps = map Inr qs"
      and "length as = length ps"
      and "\<forall>i<length ps.
             ctx (t @ take i (map2 (\<lambda>q a. EvUserInteraction q a None) qs as)) = None
           \<and> UserInteraction ih (qs ! i) (t @ take i (map2 (\<lambda>q a. EvUserInteraction q a None) qs as))
               = (as ! i, None)"
  shows "handleInterrupts ctx ih askQuestion ps answers t
           = (Inr (answers @ map2 (Respond askQuestion) ps as),
              t @ map2 (\<lambda>q a. EvUserInteraction q a None) qs as)"
  using assms
proof (induction ps arbitrary: qs as answers t)
  case Nil
  then show ?case by simp
next
  case (Cons p ps)
  from Cons.prems(1) obtain q qs' where qs: "qs = q # qs'"
    and q: "getQuestionInput (Input p) = Inr q"
    and dec: "map (\<lambda>p. getQuestionInput (Input p)) ps = map Inr qs'"
    by (cases qs) auto
  from Cons.prems(2) obtain a as' where as: "as = a # as'" and len: "length as' = length ps"
    by (cases as) auto
  from Cons.prems(3) [rule_format, of 0] qs as
  have first: "ctx t = None" "UserInteraction ih q t = (a, None)" by simp_all
  have rest: "\<forall>i<length ps.
             ctx ((t @ [EvUserInteraction q a None]) @ take i (map2 (\<lambda>q a. EvUserInteraction q a None) qs' as')) = None
           \<and> UserInteraction ih (qs' ! i)
                ((t @ [EvUserInteraction q a None]) @ take i (map2 (\<lambda>q a. EvUserInteraction q a None) qs' as'))
               = (as' ! i, None)"
  proof (intro allI impI)
    fix i assume "i < length ps"
    with Cons.prems(3) [rule_format, of "Suc i"] qs as
    show "ctx ((t @ [EvUserInteraction q a None]) @ take i (map2 (\<lambda>q a. EvUserInteraction q a None) qs' as')) = None
           \<and> UserInteraction ih (qs' ! i)
                ((t @ [EvUserInteraction q a None]) @ take i (map2 (\<lambda>q a. EvUserInteraction q a None) qs' as'))
               = (as' ! i, None)"
      by simp
  qed
  from Cons.IH [OF dec len rest, of "answers @ [Respond askQuestion p a]"] first q qs as
  show ?case by simp
qed

lemma agesQuestion_input:
  "getQuestionInput (Input agesQuestion)
     = Inr \<lparr>Question = ''What are their ages?'', Choices = [''5-7'', ''8-10'', ''11-13'', ''14+'']\<rparr>"
  by (simp add: agesQuestion_def createToolRequestPart_def getQuestionInput_def json_Marshal_def
        json_Unmarshal_def matchesField_def toUpperASCII_def)

text \<open>
  Claim C1, amended. For a suspended response with \<open>N\<close> pending requests, when the
  \<open>askQuestion\<close> capability is resolvable, the context is not cancelled when the loop is
  entered nor before any request, every payload decodes, and every call of
  \<open>UserInteraction\<close> returns without error: the Resolution Loop calls \<open>UserInteraction\<close>
  exactly \<open>N\<close> times, once per pending request in the order of \<open>Interrupts()\<close>, each call
  on the decoded payload of its request, and then makes one generation call, with the
  history of the response, the \<open>askQuestion\<close> tool, and exactly \<open>N\<close> tool responses, the
  \<open>i\<close>-th being \<open>askQuestion.Respond\<close> of the \<open>i\<close>-th request and the \<open>i\<close>-th answer.
  The loop goes on with the response of that call.
\<close>

theorem resolution_round_asks_every_request_then_resumes_once:
  assumes "FinishReason r = ''interrupted''"
      and "LookupTool (ih_generator ih) ''askQuestion'' t = Some askQuestion"
      and "ctx t = None"
      and "map (\<lambda>p. getQuestionInput (Input p)) (Interrupts r) = map Inr qs"
      and "length as = length (Interrupts r)"
      and "\<forall>i<length (Interrupts r).
             ctx (t @ take i (map2 (\<lambda>q a. EvUserInteraction q a None) qs as)) = None
           \<and> UserInteraction ih (qs ! i) (t @ take i (map2 (\<lambda>q a. EvUserInteraction q a None) qs as))
               = (as ! i, None)"
  shows "InterruptionHandler_handleResponse ctx ih r t =
           (let t1 = t @ map2 (\<lambda>q a. EvUserInteraction q a None) qs as;
                opts = [WithMessages (History r), WithTools [askQuestion],
                        WithToolResponses (map2 (Respond askQuestion) (Interrupts r) as)];
                result = Generate (ih_generator ih) opts t1;
                t2 = t1 @ [EvGenerate opts result]
            in case result of
                 Inl err \<Rightarrow> Some (Inl err, t2)
               | Inr r' \<Rightarrow> resolutionLoop ctx ih askQuestion r' t2)"
proof -
  from handleInterrupts_succeeds [OF assms(4,5,6), of askQuestion "[]"]
  have hi: "handleInterrupts ctx ih askQuestion (Interrupts r) [] t
           = (Inr (map2 (Respond askQuestion) (Interrupts r) as),
              t @ map2 (\<lambda>q a. EvUserInteraction q a None) qs as)"
    by simp
  have "resolutionLoop ctx ih askQuestion r t =
           (let t1 = t @ map2 (\<lambda>q a. EvUserInteraction q a None) qs as;
                opts = [WithMessages (History r), WithTools [askQuestion],
                        WithToolResponses (map2 (Respond askQuestion) (Interrupts r) as)];
                result = Generate (ih_generator ih) opts t1;
                t2 = t1 @ [EvGenerate opts result]
            in case result of
                 Inl err \<Rightarrow> Some (Inl err, t2)
               | Inr r' \<Rightarrow> resolutionLoop ctx ih askQuestion r' t2)"
    by (subst resolutionLoop.simps) (simp add: assms(1,3) hi Let_def)
  with assms(2) show ?thesis by (simp add: InterruptionHandler_handleResponse_def)
qed

theorem resolution_round_asks_every_request_then_resumes_once_witness:
  "FinishReason twoQuestionsResponse = ''interrupted''
   \<and> LookupTool (ih_generator twoQuestionsHandler) ''askQuestion'' [] = Some (Tool ''askQuestion'')
   \<and> background [] = None
   \<and> length (Interrupts twoQuestionsResponse) = 2
   \<and> InterruptionHandler_handleResponse background twoQuestionsHandler twoQuestionsResponse []
       = Some (Inr recommendation,
           [EvUserInteraction
              \<lparr>Question = ''What gender are the children?'', Choices = [''Boy'', ''Girl'', ''Both'']\<rparr>
              ''Boy and Girl'' None,
            EvUserInteraction
              \<lparr>Question = ''What are their ages?'', Choices = [''5-7'', ''8-10'', ''11-13'', ''14+'']\<rparr>
              ''Boy and Girl'' None,
            EvGenerate
              [WithMessages (History twoQuestionsResponse), WithTools [Tool ''askQuestion''],
               WithToolResponses [Respond (Tool ''askQuestion'') genderQuestion ''Boy and Girl'',
                                  Respond (Tool ''askQuestion'') agesQuestion ''Boy and Girl'']]
              (Inr recommendation)])"
proof -
  let ?q1 = "\<lparr>Question = ''What gender are the children?'', Choices = [''Boy'', ''Girl'', ''Both'']\<rparr>"
  let ?q2 = "\<lparr>Question = ''What are their ages?'', Choices = [''5-7'', ''8-10'', ''11-13'', ''14+'']\<rparr>"
  let ?qs = "[?q1, ?q2]"
  let ?as = "[''Boy and Girl'', ''Boy and Girl'']"
  have a: "FinishReason twoQuestionsResponse = ''interrupted''"
    by (simp add: twoQuestionsResponse_def createInterruptedResponse_def)
  note b = twoQuestionsHandler_tool
  have c: "background [] = None" by (simp add: background_def)
  have ps: "Interrupts twoQuestionsResponse = [genderQuestion, agesQuestion]"
    by (simp add: twoQuestionsResponse_def createInterruptedResponse_def)
  have d: "map (\<lambda>p. getQuestionInput (Input p)) (Interrupts twoQuestionsResponse) = map Inr ?qs"
    by (simp add: ps genderQuestion_input agesQuestion_input)
  have e: "length ?as = length (Interrupts twoQuestionsResponse)" by (simp add: ps)
  have f: "\<forall>i<length (Interrupts twoQuestionsResponse).
             background ([] @ take i (map2 (\<lambda>q a. EvUserInteraction q a None) ?qs ?as)) = None
           \<and> UserInteraction twoQuestionsHandler (?qs ! i)
                ([] @ take i (map2 (\<lambda>q a. EvUserInteraction q a None) ?qs ?as)) = (?as ! i, None)"
    by (simp add: ps background_def twoQuestionsHandler_def mockUserInteraction_def less_Suc_eq)
  have g: "Generate (ih_generator twoQuestionsHandler)
             [WithMessages (History twoQuestionsResponse), WithTools [Tool ''askQuestion''],
              WithToolResponses [Respond (Tool ''askQuestion'') genderQuestion ''Boy and Girl'',
                                 Respond (Tool ''askQuestion'') agesQuestion ''Boy and Girl'']]
             [EvUserInteraction ?q1 ''Boy and Girl'' None, EvUserInteraction ?q2 ''Boy and Girl'' None]
           = Inr recommendation"
    by (simp add: twoQuestionsHandler_def MockGenerator_def recommendation_def createTextResponse_def)
  have h: "FinishReason recommendation \<noteq> ''interrupted''"
    by (simp add: recommendation_def createTextResponse_def)
  from resolution_round_asks_every_request_then_resumes_once [OF a b c d e f]
  have "InterruptionHandler_handleResponse background twoQuestionsHandler twoQuestionsResponse []
       = Some (Inr recommendation,
           [EvUserInteraction ?q1 ''Boy and Girl'' None, EvUserInteraction ?q2 ''Boy and Girl'' None,
            EvGenerate
              [WithMessages (History twoQuestionsResponse), WithTools [Tool ''askQuestion''],
               WithToolResponses [Respond (Tool ''askQuestion'') genderQuestion ''Boy and Girl'',
                                  Respond (Tool ''askQuestion'') agesQuestion ''Boy and Girl'']]
              (Inr recommendation)])"
    by (simp add: ps g Let_def resolutionLoop_finished [OF h])
  with a b c ps show ?thesis by simp
qed

text \<open>When a call of \<open>UserInteraction\<close> fails the round is cut short: of two pending
  requests one is asked, and no generation call is made. So it is when the capability is
  absent or the context cancelled, with no request asked at all.\<close>

theorem resolution_round_cut_short_counterexample:
  "FinishReason twoQuestionsResponse = ''interrupted''
   \<and> length (Interrupts twoQuestionsResponse) = 2
   \<and> LookupTool (ih_generator timedOutHandler) ''askQuestion'' [] = Some (Tool ''askQuestion'')
   \<and> InterruptionHandler_handleResponse background timedOutHandler twoQuestionsResponse []
       = Some (Inl (ErrorsNew ''Response was not provided in time''),
           [EvUserInteraction
              \<lparr>Question = ''What gender are the children?'', Choices = [''Boy'', ''Girl'', ''Both'']\<rparr>
              [] (Some (ErrorsNew ''Response was not provided in time''))])
   \<and> InterruptionHandler_handleResponse cancelledContext twoQuestionsHandler twoQuestionsResponse []
       = Some (Inl Canceled, [])
   \<and> InterruptionHandler_handleResponse background handlerWithoutTool twoQuestionsResponse []
       = Some (Inl (ErrorsNew ''askQuestion tool not found''), [])"
proof -
  have susp: "FinishReason twoQuestionsResponse = ''interrupted''"
    "Interrupts twoQuestionsResponse = [genderQuestion, agesQuestion]"
    by (simp_all add: twoQuestionsResponse_def createInterruptedResponse_def)
  have tool: "LookupTool (ih_generator timedOutHandler) ''askQuestion'' [] = Some (Tool ''askQuestion'')"
    by (simp add: timedOutHandler_def MockGenerator_def askQuestionTools_def)
  have "resolutionLoop background timedOutHandler (Tool ''askQuestion'') twoQuestionsResponse []
       = Some (Inl (ErrorsNew ''Response was not provided in time''),
           [EvUserInteraction
              \<lparr>Question = ''What gender are the children?'', Choices = [''Boy'', ''Girl'', ''Both'']\<rparr>
              [] (Some (ErrorsNew ''Response was not provided in time''))])"
    by (subst resolutionLoop.simps)
       (simp add: susp background_def genderQuestion_input timedOutHandler_def
          timedOutInteraction_def)
  with tool have timeout:
    "InterruptionHandler_handleResponse background timedOutHandler twoQuestionsResponse []
       = Some (Inl (ErrorsNew ''Response was not provided in time''),
           [EvUserInteraction
              \<lparr>Question = ''What gender are the children?'', Choices = [''Boy'', ''Girl'', ''Both'']\<rparr>
              [] (Some (ErrorsNew ''Response was not provided in time''))])"
    by (simp add: InterruptionHandler_handleResponse_def)
  have "resolutionLoop cancelledContext twoQuestionsHandler (Tool ''askQuestion'') twoQuestionsResponse []
          = Some (Inl Canceled, [])"
    by (subst resolutionLoop.simps) (simp add: susp cancelledContext_def)
  then have cancelled:
    "InterruptionHandler_handleResponse cancelledContext twoQuestionsHandler twoQuestionsResponse []
       = Some (Inl Canceled, [])"
    by (simp add: InterruptionHandler_handleResponse_def twoQuestionsHandler_tool)
  have absent:
    "InterruptionHandler_handleResponse background handlerWithoutTool twoQuestionsResponse []
       = Some (Inl (ErrorsNew ''askQuestion tool not found''), [])"
    by (simp add: InterruptionHandler_handleResponse_def handlerWithoutTool_def MockGenerator_def)
  from susp tool timeout cancelled absent show ?thesis by simp
qed

subsection \<open>Finished responses\<close>

text \<open>
  Claim C4, amended. For a response whose \<open>FinishReason\<close> is not \<open>interrupted\<close>, when the
  \<open>askQuestion\<close> capability is resolvable, \<open>InterruptionHandler.handleResponse\<close> returns
  that response unchanged; the trace is unchanged, so it made no Interaction call and no
  generation call.
\<close>

theorem finished_response_returned_unchanged:
  assumes "FinishReason r \<noteq> ''interrupted''"
      and "LookupTool (ih_generator ih) ''askQuestion'' t = Some askQuestion"
  shows "InterruptionHandler_handleResponse ctx ih r t = Some (Inr r, t)"
  using assms by (simp add: InterruptionHandler_handleResponse_def resolutionLoop_finished)

theorem finished_response_returned_unchanged_witness:
  "FinishReason recommendation \<noteq> ''interrupted''
   \<and> LookupTool (ih_generator simpleFlowHandler) ''askQuestion'' [] = Some (Tool ''askQuestion'')
   \<and> InterruptionHandler_handleResponse background simpleFlowHandler recommendation []
       = Some (Inr recommendation, [])"
proof -
  have a: "FinishReason recommendation \<noteq> ''interrupted''"
    by (simp add: recommendation_def createTextResponse_def)
  have b: "LookupTool (ih_generator simpleFlowHandler) ''askQuestion'' [] = Some (Tool ''askQuestion'')"
    by (simp add: simpleFlowHandler_def MockGenerator_def askQuestionTools_def)
  from a b finished_response_returned_unchanged [OF a b, of background] show ?thesis by simp
qed

text \<open>Without the capability a finished response is not returned: the handler returns the
  error of the lookup.\<close>

theorem finished_response_without_capability_counterexample:
  "FinishReason (createTextResponse ''Hello'' ''stop'') \<noteq> ''interrupted''
   \<and> InterruptionHandler_handleResponse background handlerWithoutTool (createTextResponse ''Hello'' ''stop'') []
       \<noteq> Some (Inr (createTextResponse ''Hello'' ''stop''), [])
   \<and> InterruptionHandler_handleResponse background handlerWithoutTool (createTextResponse ''Hello'' ''stop'') []
       = Some (Inl (ErrorsNew ''askQuestion tool not found''), [])"
  by (simp add: InterruptionHandler_handleResponse_def handlerWithoutTool_def MockGenerator_def
        createTextResponse_def)

text \<open>
  Claim C9. In both handlers the lookup of \<open>askQuestion\<close> comes before the response is
  looked at. For a finished response the Resolution Loop returns the error
  \<open>askQuestion tool not found\<close> when the capability is absent and the response itself,
  unchanged, when it is present; the Completion Loop returns that error too when its
  generator lacks the capability, and whenever it returns a response both lookups have
  succeeded.
\<close>

theorem capability_lookup_precedes_inspection:
  assumes "FinishReason r \<noteq> ''interrupted''"
  shows "InterruptionHandler_handleResponse ctx ih r t =
           (case LookupTool (ih_generator ih) ''askQuestion'' t of
              None \<Rightarrow> Some (Inl (ErrorsNew ''askQuestion tool not found''), t)
            | Some askQuestion \<Rightarrow> Some (Inr r, t))
       \<and> (LookupTool (cv_generator cv) ''askQuestion'' t = None \<longrightarrow>
           ConversationLoopHandler_handleResponse ctx cv r t
             = Some (Inl (ErrorsNew ''askQuestion tool not found''), t))
       \<and> (\<forall>r' t'. ConversationLoopHandler_handleResponse ctx cv r t = Some (Inr r', t') \<longrightarrow>
           LookupTool (cv_generator cv) ''askQuestion'' t \<noteq> None
           \<and> LookupTool (ih_generator (interruptionHandler cv)) ''askQuestion'' t \<noteq> None)"
proof (intro conjI allI impI notI)
  show "InterruptionHandler_handleResponse ctx ih r t =
           (case LookupTool (ih_generator ih) ''askQuestion'' t of
              None \<Rightarrow> Some (Inl (ErrorsNew ''askQuestion tool not found''), t)
            | Some askQuestion \<Rightarrow> Some (Inr r, t))"
    using assms
    by (simp add: InterruptionHandler_handleResponse_def resolutionLoop_finished split: option.splits)
next
  assume "LookupTool (cv_generator cv) ''askQuestion'' t = None"
  then show "ConversationLoopHandler_handleResponse ctx cv r t
               = Some (Inl (ErrorsNew ''askQuestion tool not found''), t)"
    by (simp add: ConversationLoopHandler_handleResponse_def)
next
  fix r' t'
  assume "ConversationLoopHandler_handleResponse ctx cv r t = Some (Inr r', t')"
     and "LookupTool (cv_generator cv) ''askQuestion'' t = None"
  then show False by (simp add: ConversationLoopHandler_handleResponse_def)
next
  fix r' t'
  assume ok: "ConversationLoopHandler_handleResponse ctx cv r t = Some (Inr r', t')"
     and inner: "LookupTool (ih_generator (interruptionHandler cv)) ''askQuestion'' t = None"
  show False
  proof (cases "LookupTool (cv_generator cv) ''askQuestion'' t")
    case None
    with ok show False by (simp add: ConversationLoopHandler_handleResponse_def)
  next
    case (Some askQuestion)
    have "completionLoop ctx cv askQuestion r t
            = Some (Inl (ErrorsNew ''askQuestion tool not found''), t)"
      by (subst completionLoop.simps) (simp add: InterruptionHandler_handleResponse_def inner)
    with Some ok show False by (simp add: ConversationLoopHandler_handleResponse_def)
  qed
qed

theorem capability_lookup_precedes_inspection_witness:
  "FinishReason (createTextResponse ''Hello'' ''stop'') \<noteq> ''interrupted''
   \<and> InterruptionHandler_handleResponse background handlerWithoutTool (createTextResponse ''Hello'' ''stop'') []
       = Some (Inl (ErrorsNew ''askQuestion tool not found''), [])
   \<and> ConversationLoopHandler_handleResponse background loopWithoutTool (createTextResponse ''Hello'' ''stop'') []
       = Some (Inl (ErrorsNew ''askQuestion tool not found''), [])"
proof -
  have a: "FinishReason (createTextResponse ''Hello'' ''stop'') \<noteq> ''interrupted''"
    by (simp add: createTextResponse_def)
  have b: "LookupTool (ih_generator handlerWithoutTool) ''askQuestion'' [] = None"
    by (simp add: handlerWithoutTool_def MockGenerator_def)
  have c: "LookupTool (cv_generator loopWithoutTool) ''askQuestion'' [] = None"
    by (simp add: loopWithoutTool_def MockGenerator_def)
  from a b c capability_lookup_precedes_inspection [OF a, of background handlerWithoutTool "[]" loopWithoutTool]
  show ?thesis by simp
qed

subsection \<open>Cancellation\<close>

text \<open>
  Claim C7, amended. For a suspended response, when the \<open>askQuestion\<close> capability is
  resolvable: if the context is already cancelled when the loop is entered, the Resolution
  Loop returns the context's error with the trace unchanged (no Interaction call); and the
  context is checked again before each Interaction call of a round, so that if it is
  cancelled once the earlier requests of the round have been answered, the loop returns
  the context's error, the answers collected so far are dropped, the trace holds only the
  Interaction calls of the earlier requests, and no generation call is made.
\<close>

theorem cancelled_context_aborts_round:
  assumes "FinishReason r = ''interrupted''"
      and "LookupTool (ih_generator ih) ''askQuestion'' t = Some askQuestion"
  shows "(\<forall>cancelled. ctx t = Some cancelled \<longrightarrow>
            InterruptionHandler_handleResponse ctx ih r t = Some (Inl cancelled, t))
       \<and> (\<forall>earlier part later answers t1 cancelled.
            ctx t = None \<and> Interrupts r = earlier @ part # later
            \<and> handleInterrupts ctx ih askQuestion earlier [] t = (Inr answers, t1)
            \<and> ctx t1 = Some cancelled \<longrightarrow>
            InterruptionHandler_handleResponse ctx ih r t = Some (Inl cancelled, t1)
            \<and> (\<exists>evs. t1 = t @ evs \<and> length evs = length earlier \<and> list_all isUserInteraction evs))"
proof (intro conjI allI impI)
  fix cancelled
  assume "ctx t = Some cancelled"
  with assms show "InterruptionHandler_handleResponse ctx ih r t = Some (Inl cancelled, t)"
    by (simp add: InterruptionHandler_handleResponse_def) (subst resolutionLoop.simps, simp)
next
  fix earlier part later answers t1 cancelled
  assume h: "ctx t = None \<and> Interrupts r = earlier @ part # later
            \<and> handleInterrupts ctx ih askQuestion earlier [] t = (Inr answers, t1)
            \<and> ctx t1 = Some cancelled"
  then have "handleInterrupts ctx ih askQuestion (Interrupts r) [] t = (Inl cancelled, t1)"
    by (simp add: handleInterrupts_append)
  with assms h have "resolutionLoop ctx ih askQuestion r t = Some (Inl cancelled, t1)"
    by (subst resolutionLoop.simps) simp
  with assms show "InterruptionHandler_handleResponse ctx ih r t = Some (Inl cancelled, t1)"
    by (simp add: InterruptionHandler_handleResponse_def)
next
  fix earlier part later answers t1 cancelled
  assume h: "ctx t = None \<and> Interrupts r = earlier @ part # later
            \<and> handleInterrupts ctx ih askQuestion earlier [] t = (Inr answers, t1)
            \<and> ctx t1 = Some cancelled"
  then have "handleInterrupts ctx ih askQuestion earlier [] t = (Inr answers, t1)" by simp
  from handleInterrupts_Inr [OF this]
  show "\<exists>evs. t1 = t @ evs \<and> length evs = length earlier \<and> list_all isUserInteraction evs"
    by (auto simp: list_all_iff dest!: set_zip_leftD)
qed

theorem cancelled_context_aborts_round_witness:
  "FinishReason twoQuestionsResponse = ''interrupted''
   \<and> LookupTool (ih_generator twoQuestionsHandler) ''askQuestion'' [] = Some (Tool ''askQuestion'')
   \<and> InterruptionHandler_handleResponse cancelledContext twoQuestionsHandler twoQuestionsResponse []
       = Some (Inl Canceled, [])
   \<and> InterruptionHandler_handleResponse cancelledDuringFirstAnswer twoQuestionsHandler
         twoQuestionsResponse []
       = Some (Inl Canceled,
           [EvUserInteraction
              \<lparr>Question = ''What gender are the children?'', Choices = [''Boy'', ''Girl'', ''Both'']\<rparr>
              ''Boy and Girl'' None])"
proof -
  let ?t1 = "[EvUserInteraction
              \<lparr>Question = ''What gender are the children?'', Choices = [''Boy'', ''Girl'', ''Both'']\<rparr>
              ''Boy and Girl'' None]"
  have a: "FinishReason twoQuestionsResponse = ''interrupted''"
    by (simp add: twoQuestionsResponse_def createInterruptedResponse_def)
  note b = twoQuestionsHandler_tool
  have c: "cancelledContext [] = Some Canceled"
    by (simp add: cancelledContext_def)
  have d: "cancelledDuringFirstAnswer [] = None
           \<and> Interrupts twoQuestionsResponse = [genderQuestion] @ agesQuestion # []
           \<and> handleInterrupts cancelledDuringFirstAnswer twoQuestionsHandler (Tool ''askQuestion'')
                [genderQuestion] [] []
               = (Inr [Respond (Tool ''askQuestion'') genderQuestion ''Boy and Girl''], ?t1)
           \<and> cancelledDuringFirstAnswer ?t1 = Some Canceled"
    by (simp add: cancelledDuringFirstAnswer_def twoQuestionsResponse_def createInterruptedResponse_def
          genderQuestion_input twoQuestionsHandler_def mockUserInteraction_def)
  from cancelled_context_aborts_round [OF a b, of cancelledContext] c
  have e: "InterruptionHandler_handleResponse cancelledContext twoQuestionsHandler twoQuestionsResponse []
             = Some (Inl Canceled, [])"
    by blast
  from cancelled_context_aborts_round [OF a b, of cancelledDuringFirstAnswer] d
  have f: "InterruptionHandler_handleResponse cancelledDuringFirstAnswer twoQuestionsHandler
             twoQuestionsResponse [] = Some (Inl Canceled, ?t1)"
    by blast
  from a b e f show ?thesis by simp
qed

text \<open>Without the capability the lookup fails first: a cancelled context then yields the
  error of the lookup, not the context's error.\<close>

theorem cancelled_context_without_capability_counterexample:
  "FinishReason simpleFlowResponse = ''interrupted''
   \<and> cancelledContext [] = Some Canceled
   \<and> InterruptionHandler_handleResponse cancelledContext handlerWithoutTool simpleFlowResponse []
       = Some (Inl (ErrorsNew ''askQuestion tool not found''), [])
   \<and> InterruptionHandler_handleResponse cancelledContext handlerWithoutTool simpleFlowResponse []
       \<noteq> Some (Inl Canceled, [])"
  by (simp add: InterruptionHandler_handleResponse_def handlerWithoutTool_def MockGenerator_def
        simpleFlowResponse_def createInterruptedResponse_def cancelledContext_def)

subsection \<open>Undecodable requests\<close>

lemma handleInterrupts_Inr_events:
  assumes "handleInterrupts ctx ih askQuestion ps answers t = (Inr answers', t')"
  shows "\<exists>evs. t' = t @ evs \<and> length evs = length ps \<and> list_all isUserInteraction evs"
  using handleInterrupts_Inr [OF assms]
  by (auto simp: list_all_iff dest!: set_zip_leftD)

lemma handleInterrupts_undecodable:
  assumes "getQuestionInput (Input part) = Inl err"
  shows "\<exists>e evs. handleInterrupts ctx ih askQuestion (earlier @ part # later) answers t = (Inl e, t @ evs)
           \<and> list_all isUserInteraction evs \<and> length evs \<le> length earlier"
proof -
  obtain res t1 where front: "handleInterrupts ctx ih askQuestion earlier answers t = (res, t1)"
    by (cases "handleInterrupts ctx ih askQuestion earlier answers t")
  show ?thesis
  proof (cases res)
    case (Inl e)
    with front handleInterrupts_Inl [of ctx ih askQuestion earlier answers t e t1]
    obtain evs where "t1 = t @ evs" "list_all isUserInteraction evs" "length evs \<le> length earlier"
      by blast
    with front Inl show ?thesis
      by (intro exI [of _ e] exI [of _ evs]) (simp add: handleInterrupts_append)
  next
    case (Inr answers1)
    with front handleInterrupts_Inr_events [of ctx ih askQuestion earlier answers t answers1 t1]
    obtain evs where evs: "t1 = t @ evs" "list_all isUserInteraction evs" "length evs = length earlier"
      by blast
    show ?thesis
    proof (cases "ctx t1")
      case None
      with front Inr assms evs show ?thesis
        by (intro exI [of _ err] exI [of _ evs]) (simp add: handleInterrupts_append)
    next
      case (Some cancelled)
      with front Inr evs show ?thesis
        by (intro exI [of _ cancelled] exI [of _ evs]) (simp add: handleInterrupts_append)
    qed
  qed
qed

text \<open>
  Claim C8, amended. A suspended response that holds a pending request on which
  \<open>getQuestionInput\<close> returns an error always ends \<open>InterruptionHandler.handleResponse\<close>
  with an error: the trace gains only Interaction calls, at most one for each earlier
  request, so no Interaction call is made for the request and no generation call is
  issued. When the round reaches the request (the capability is resolvable, the context
  is not cancelled when the loop is entered nor before the request, the earlier requests
  have been answered without error), the error returned is the decode error.
\<close>

theorem undecodable_request_aborts_round:
  assumes "FinishReason r = ''interrupted''"
      and "Interrupts r = earlier @ part # later"
      and "getQuestionInput (Input part) = Inl err"
  shows "(\<exists>e evs. InterruptionHandler_handleResponse ctx ih r t = Some (Inl e, t @ evs)
            \<and> list_all isUserInteraction evs \<and> length evs \<le> length earlier)
       \<and> (\<forall>askQuestion answers t1.
            LookupTool (ih_generator ih) ''askQuestion'' t = Some askQuestion
            \<and> ctx t = None
            \<and> handleInterrupts ctx ih askQuestion earlier [] t = (Inr answers, t1)
            \<and> ctx t1 = None \<longrightarrow>
            InterruptionHandler_handleResponse ctx ih r t = Some (Inl err, t1))"
proof (intro conjI allI impI)
  show "\<exists>e evs. InterruptionHandler_handleResponse ctx ih r t = Some (Inl e, t @ evs)
            \<and> list_all isUserInteraction evs \<and> length evs \<le> length earlier"
  proof (cases "LookupTool (ih_generator ih) ''askQuestion'' t")
    case None
    then show ?thesis
      by (intro exI [of _ "ErrorsNew ''askQuestion tool not found''"] exI [of _ "[]"])
         (simp add: InterruptionHandler_handleResponse_def)
  next
    case (Some askQuestion)
    then have hr: "InterruptionHandler_handleResponse ctx ih r t = resolutionLoop ctx ih askQuestion r t"
      by (simp add: InterruptionHandler_handleResponse_def)
    show ?thesis
    proof (cases "ctx t")
      case (Some cancelled)
      with assms(1) have "resolutionLoop ctx ih askQuestion r t = Some (Inl cancelled, t)"
        by (subst resolutionLoop.simps) simp
      with hr show ?thesis by (intro exI [of _ cancelled] exI [of _ "[]"]) simp
    next
      case None
      from handleInterrupts_undecodable [OF assms(3), of ctx ih askQuestion earlier later "[]" t]
      obtain e evs where
        hi: "handleInterrupts ctx ih askQuestion (earlier @ part # later) [] t = (Inl e, t @ evs)"
        and evs: "list_all isUserInteraction evs" "length evs \<le> length earlier"
        by blast
      from assms(1,2) None hi have "resolutionLoop ctx ih askQuestion r t = Some (Inl e, t @ evs)"
        by (subst resolutionLoop.simps) simp
      with hr evs show ?thesis by (intro exI [of _ e] exI [of _ evs]) simp
    qed
  qed
next
  fix askQuestion answers t1
  assume h: "LookupTool (ih_generator ih) ''askQuestion'' t = Some askQuestion
            \<and> ctx t = None
            \<and> handleInterrupts ctx ih askQuestion earlier [] t = (Inr answers, t1)
            \<and> ctx t1 = None"
  with assms have "handleInterrupts ctx ih askQuestion (Interrupts r) [] t = (Inl err, t1)"
    by (simp add: handleInterrupts_append)
  with assms h have "resolutionLoop ctx ih askQuestion r t = Some (Inl err, t1)"
    by (subst resolutionLoop.simps) simp
  with h show "InterruptionHandler_handleResponse ctx ih r t = Some (Inl err, t1)"
    by (simp add: InterruptionHandler_handleResponse_def)
qed

theorem undecodable_request_aborts_round_witness:
  "FinishReason malformedSecondResponse = ''interrupted''
   \<and> Interrupts malformedSecondResponse = [genderQuestion] @ malformedRequest # []
   \<and> getQuestionInput (Input malformedRequest) = Inl UnexpectedInputType
   \<and> LookupTool (ih_generator twoQuestionsHandler) ''askQuestion'' [] = Some (Tool ''askQuestion'')
   \<and> background [] = None
   \<and> InterruptionHandler_handleResponse background twoQuestionsHandler malformedSecondResponse []
       = Some (Inl UnexpectedInputType,
           [EvUserInteraction
              \<lparr>Question = ''What gender are the children?'', Choices = [''Boy'', ''Girl'', ''Both'']\<rparr>
              ''Boy and Girl'' None])"
proof -
  let ?t1 = "[EvUserInteraction
              \<lparr>Question = ''What gender are the children?'', Choices = [''Boy'', ''Girl'', ''Both'']\<rparr>
              ''Boy and Girl'' None]"
  have a: "FinishReason malformedSecondResponse = ''interrupted''"
    by (simp add: malformedSecondResponse_def createInterruptedResponse_def)
  note b = twoQuestionsHandler_tool
  have c: "background [] = None" "background ?t1 = None"
    by (simp_all add: background_def)
  have d: "Interrupts malformedSecondResponse = [genderQuestion] @ malformedRequest # []"
    by (simp add: malformedSecondResponse_def createInterruptedResponse_def)
  have e: "handleInterrupts background twoQuestionsHandler (Tool ''askQuestion'') [genderQuestion] [] []
             = (Inr [Respond (Tool ''askQuestion'') genderQuestion ''Boy and Girl''], ?t1)"
    by (rule first_question_answered) (rule c)
  have f: "getQuestionInput (Input malformedRequest) = Inl UnexpectedInputType"
    by (simp add: malformedRequest_def getQuestionInput_def)
  from undecodable_request_aborts_round [OF a d f, of background twoQuestionsHandler "[]"] b c e
  have "InterruptionHandler_handleResponse background twoQuestionsHandler malformedSecondResponse []
          = Some (Inl UnexpectedInputType, ?t1)"
    by blast
  with a b c d f show ?thesis by simp
qed

text \<open>Without the capability the error returned is the error of the lookup, not the decode
  error.\<close>

theorem undecodable_request_without_capability_counterexample:
  "FinishReason malformedOnlyResponse = ''interrupted''
   \<and> Interrupts malformedOnlyResponse = [malformedRequest]
   \<and> getQuestionInput (Input malformedRequest) = Inl UnexpectedInputType
   \<and> InterruptionHandler_handleResponse background handlerWithoutTool malformedOnlyResponse []
       = Some (Inl (ErrorsNew ''askQuestion tool not found''), [])
   \<and> InterruptionHandler_handleResponse background handlerWithoutTool malformedOnlyResponse []
       \<noteq> Some (Inl UnexpectedInputType, [])"
  by (simp add: InterruptionHandler_handleResponse_def handlerWithoutTool_def MockGenerator_def
        malformedOnlyResponse_def createInterruptedResponse_def malformedRequest_def
        getQuestionInput_def)

text \<open>The Resolution Loop returns an error of \<open>UserInteraction\<close> as it is, after the call
  that failed and before any generation call.\<close>

lemma resolution_round_returns_interaction_error:
  assumes "FinishReason r = ''interrupted''"
      and "LookupTool (ih_generator ih) ''askQuestion'' t = Some askQuestion"
      and "ctx t = None"
      and "Interrupts r = earlier @ part # later"
      and "handleInterrupts ctx ih askQuestion earlier [] t = (Inr answers, t1)"
      and "ctx t1 = None"
      and "getQuestionInput (Input part) = Inr q"
      and "UserInteraction ih q t1 = (answer, Some e)"
  shows "InterruptionHandler_handleResponse ctx ih r t
           = Some (Inl e, t1 @ [EvUserInteraction q answer (Some e)])"
proof -
  from assms have "handleInterrupts ctx ih askQuestion (Interrupts r) [] t
                     = (Inl e, t1 @ [EvUserInteraction q answer (Some e)])"
    by (simp add: handleInterrupts_append)
  with assms have "resolutionLoop ctx ih askQuestion r t
                     = Some (Inl e, t1 @ [EvUserInteraction q answer (Some e)])"
    by (subst resolutionLoop.simps) simp
  with assms show ?thesis by (simp add: InterruptionHandler_handleResponse_def)
qed

subsection \<open>The Completion Loop\<close>









lemma loopOnce_run:
  assumes "userInteraction \<lparr>Question = ''Hello'', Choices = []\<rparr>
             [EvGenerateBool ''Is finished?'' [Message ''model'' ''Hello''] (Inr False)] = (answer, err)"
  shows "ConversationLoopHandler_handleResponse background (loopOnceHandler userInteraction)
           simpleResponse []
         = Some (Inr finalAnswer,
             [EvGenerateBool ''Is finished?'' [Message ''model'' ''Hello''] (Inr False),
              EvUserInteraction \<lparr>Question = ''Hello'', Choices = []\<rparr> answer err,
              EvGenerate [WithMessages [Message ''model'' ''Hello''], WithTools [Tool ''askQuestion''],
                          WithPrompt answer [err]] (Inr finalAnswer),
              EvGenerateBool ''Is finished?'' [Message ''model'' ''Final Answer''] (Inr True)])"
proof -
  have fin: "FinishReason simpleResponse \<noteq> ''interrupted''" "FinishReason finalAnswer \<noteq> ''interrupted''"
    by (simp_all add: simpleResponse_def finalAnswer_def createTextResponse_def)
  have inner: "\<And>r t. FinishReason r \<noteq> ''interrupted'' \<Longrightarrow>
      InterruptionHandler_handleResponse background (interruptionHandler (loopOnceHandler userInteraction)) r t
        = Some (Inr r, t)"
    by (simp add: InterruptionHandler_handleResponse_def loopOnceHandler_def MockGenerator_def
          askQuestionTools_def resolutionLoop_finished)
  have obs: "History simpleResponse = [Message ''model'' ''Hello'']" "Text simpleResponse = ''Hello''"
    "History finalAnswer = [Message ''model'' ''Final Answer'']"
    by (simp_all add: simpleResponse_def finalAnswer_def createTextResponse_def)
  have gen: "cv_generator (loopOnceHandler userInteraction)
               = MockGenerator [finalAnswer] askQuestionTools [False, True]"
    "validationPrompt (loopOnceHandler userInteraction) = ''Is finished?''"
    "UserInteraction (interruptionHandler (loopOnceHandler userInteraction)) = userInteraction"
    by (simp_all add: loopOnceHandler_def)
  have "completionLoop background (loopOnceHandler userInteraction) (Tool ''askQuestion'') simpleResponse []
         = Some (Inr finalAnswer,
             [EvGenerateBool ''Is finished?'' [Message ''model'' ''Hello''] (Inr False),
              EvUserInteraction \<lparr>Question = ''Hello'', Choices = []\<rparr> answer err,
              EvGenerate [WithMessages [Message ''model'' ''Hello''], WithTools [Tool ''askQuestion''],
                          WithPrompt answer [err]] (Inr finalAnswer),
              EvGenerateBool ''Is finished?'' [Message ''model'' ''Final Answer''] (Inr True)])"
    apply (subst completionLoop.simps)
    apply (simp add: inner fin obs gen MockGenerator_def assms Let_def)
    apply (subst completionLoop.simps)
    apply (simp add: inner fin obs gen MockGenerator_def Let_def)
    done
  then show ?thesis
    by (simp add: ConversationLoopHandler_handleResponse_def gen MockGenerator_def askQuestionTools_def)
qed






text \<open>
  Claim C3 at its failing input. \<open>UserInteraction\<close> returns the error of a timeout when the
  Completion Loop asks for the next prompt: the error is handed to \<open>ai.WithPrompt\<close> as an
  argument, \<open>Generate\<close> is called all the same, and \<open>handleResponse\<close> returns the final
  response with no error.
\<close>

theorem completion_loop_swallows_interaction_error:
  "ConversationLoopHandler_handleResponse background (loopOnceHandler timedOutInteraction)
       simpleResponse []
     = Some (Inr finalAnswer,
         [EvGenerateBool ''Is finished?'' [Message ''model'' ''Hello''] (Inr False),
          EvUserInteraction \<lparr>Question = ''Hello'', Choices = []\<rparr> []
            (Some (ErrorsNew ''Response was not provided in time'')),
          EvGenerate [WithMessages [Message ''model'' ''Hello''], WithTools [Tool ''askQuestion''],
                      WithPrompt [] [Some (ErrorsNew ''Response was not provided in time'')]]
            (Inr finalAnswer),
          EvGenerateBool ''Is finished?'' [Message ''model'' ''Final Answer''] (Inr True)])"
  by (rule loopOnce_run) (simp add: timedOutInteraction_def)

subsection \<open>Decoding a payload\<close>














text \<open>Three payloads: a string with a byte that is not UTF-8 comes back with U+FFFD in its
  place; a byte slice under \<open>question\<close> comes back as its base64 text; nil under
  \<open>question\<close> and an empty slice under \<open>choices\<close> give the zero value.\<close>

lemma getQuestionInput_invalid_utf8:
  "getQuestionInput (GMapStringAny [(''question'', GString [CHR ''a'', CHR 0xFF, CHR ''b''])])
     = Inr \<lparr>Question = [CHR ''a'', CHR 0xEF, CHR 0xBF, CHR 0xBD, CHR ''b''], Choices = []\<rparr>"
  by (simp add: getQuestionInput_def json_Marshal_def json_Unmarshal_def matchesField_def
        toUpperASCII_def inRange_def)

lemma getQuestionInput_bytes:
  "getQuestionInput (GMapStringAny [(''question'', GBytes ''aGk='')])
     = Inr \<lparr>Question = ''aGk='', Choices = []\<rparr>"
  by (simp add: getQuestionInput_def json_Marshal_def json_Unmarshal_def matchesField_def
        toUpperASCII_def inRange_def)

lemma getQuestionInput_nil_and_empty:
  "getQuestionInput (GMapStringAny [(''question'', GNil), (''choices'', GSlice [])])
     = Inr \<lparr>Question = [], Choices = []\<rparr>"
  by (simp add: getQuestionInput_def json_Marshal_def json_Unmarshal_def matchesField_def
        toUpperASCII_def inRange_def)




end
